theory Spec2Isabelle
  imports Main
begin

section \<open>JavaScript values and the global object\<close>

text \<open>
  Both files of the repository slice are generated rustdoc artefacts written in JavaScript:
  \<^verbatim>\<open>doc/implementors/serde/ser/trait.Serialize.js\<close> (the implementors table of the trait
  \<^verbatim>\<open>serde::ser::Serialize\<close>) and a sidebar index that calls \<^verbatim>\<open>initSidebarItems\<close>.
  JavaScript is dynamically typed, so the values a property of \<^verbatim>\<open>window\<close> can hold are
  modelled by one datatype. Numbers are restricted to the integers and \<^verbatim>\<open>NaN\<close>: the
  scripts only test a number for truthiness, where every other double behaves like a
  non-zero integer. A function value is an identifier into an environment of callbacks,
  since a function cannot be stored inside the datatype it acts on.
\<close>

datatype jsval =
    JUndefined
  | JNull
  | JBool bool
  | JNum int
  | JNaN
  | JStr string
  | JArr "jsval list"
  | JObj "(string \<times> jsval) list"
  | JFun nat

text \<open>\<^verbatim>\<open>ToBoolean\<close>, the conversion an \<^verbatim>\<open>if (...)\<close> applies to its condition.\<close>

fun truthy :: "jsval \<Rightarrow> bool" where
  "truthy JUndefined = False"
| "truthy JNull = False"
| "truthy (JBool b) = b"
| "truthy (JNum n) = (n \<noteq> 0)"
| "truthy JNaN = False"
| "truthy (JStr s) = (s \<noteq> [])"
| "truthy (JArr xs) = True"
| "truthy (JObj ps) = True"
| "truthy (JFun f) = True"

text \<open>
  An object literal keeps its properties in insertion order. \<open>put_prop\<close> is the
  assignment \<^verbatim>\<open>o[k] = v\<close>: an existing key keeps its place, a new key goes last.
  \<open>get_prop\<close> reads \<^verbatim>\<open>o[k]\<close>; a missing property reads as \<^verbatim>\<open>undefined\<close>.
\<close>

fun put_assoc :: "string \<Rightarrow> jsval \<Rightarrow> (string \<times> jsval) list \<Rightarrow> (string \<times> jsval) list" where
  "put_assoc k v [] = [(k, v)]"
| "put_assoc k v (p # ps) = (if fst p = k then (k, v) # ps else p # put_assoc k v ps)"

fun put_prop :: "jsval \<Rightarrow> string \<Rightarrow> jsval \<Rightarrow> jsval" where
  "put_prop (JObj ps) k v = JObj (put_assoc k v ps)"
| "put_prop x k v = x"

fun props :: "jsval \<Rightarrow> (string \<times> jsval) list" where
  "props (JObj ps) = ps"
| "props x = []"

definition get_prop :: "jsval \<Rightarrow> string \<Rightarrow> jsval" where
  "get_prop x k = (case map_of (props x) k of Some v \<Rightarrow> v | None \<Rightarrow> JUndefined)"

fun elems :: "jsval \<Rightarrow> jsval list" where
  "elems (JArr xs) = xs"
| "elems x = []"

fun str_of :: "jsval \<Rightarrow> string option" where
  "str_of (JStr s) = Some s"
| "str_of x = None"

text \<open>
  The global object \<^verbatim>\<open>window\<close> is a store from property names to values. Reading a
  property that is not there gives \<^verbatim>\<open>undefined\<close>. Properties are plain data properties
  (no getters or setters), so reading one twice gives the same value.
\<close>

type_synonym window = "string \<rightharpoonup> jsval"

definition read_prop :: "window \<Rightarrow> string \<Rightarrow> jsval" where
  "read_prop w k = (case w k of Some v \<Rightarrow> v | None \<Rightarrow> JUndefined)"

text \<open>
  A callback receives its argument and the global object, and hands back the global object
  as it leaves it together with the exception it threw, if any. Callbacks are code of the
  page, not of the scripts modelled here, so they are a parameter of every run.
\<close>

datatype abrupt = TypeError | ReferenceError | Thrown jsval

type_synonym callback = "jsval \<Rightarrow> window \<Rightarrow> window \<times> abrupt option"

type_synonym funs = "nat \<Rightarrow> callback"

text \<open>
  What a script itself does to the world is recorded as a trace of events: a call of a
  function value with an argument, or an assignment to a property of \<^verbatim>\<open>window\<close>.
\<close>

datatype event = Invoke nat jsval | Assign string jsval

record outcome =
  win :: window
  trace :: "event list"
  raised :: "abrupt option"

text \<open>
  The call expression \<^verbatim>\<open>callee(arg)\<close>: calling a value that is not a function raises
  \<^verbatim>\<open>TypeError\<close> before anything else happens.
\<close>

definition invoke :: "funs \<Rightarrow> jsval \<Rightarrow> jsval \<Rightarrow> window \<Rightarrow> outcome" where
  "invoke fs callee arg w =
     (case callee of
        JFun f \<Rightarrow> \<lparr>win = fst (fs f arg w), trace = [Invoke f arg], raised = snd (fs f arg w)\<rparr>
      | _ \<Rightarrow> \<lparr>win = w, trace = [], raised = Some TypeError\<rparr>)"

section \<open>The implementors table of \<^verbatim>\<open>serde::ser::Serialize\<close>\<close>

text \<open>
  \<^verbatim>\<open>implementors["martian"] = [{text: ..., synthetic: false, types: [...]}, ...]\<close> and
  \<^verbatim>\<open>implementors["serde_json"] = [...]\<close>, character for character (the JavaScript escape
  \<^verbatim>\<open>\"\<close> is the character \<^verbatim>\<open>"\<close>). The comma before the closing bracket of each
  array literal adds no element.
\<close>

definition martian_impls :: jsval where
  \<open>martian_impls = JArr
    [JObj [(''text'', JStr ''impl <a class="trait" href="serde/ser/trait.Serialize.html" title="trait serde::ser::Serialize">Serialize</a> for <a class="struct" href="martian/types/struct.MartianVoid.html" title="struct martian::types::MartianVoid">MartianVoid</a>''),
      (''synthetic'', JBool False),
      (''types'', JArr [JStr ''martian::types::MartianVoid''])],
     JObj [(''text'', JStr ''impl <a class="trait" href="serde/ser/trait.Serialize.html" title="trait serde::ser::Serialize">Serialize</a> for <a class="struct" href="martian/struct.Resource.html" title="struct martian::Resource">Resource</a>''),
      (''synthetic'', JBool False),
      (''types'', JArr [JStr ''martian::stage::Resource''])],
     JObj [(''text'', JStr ''impl&lt;T&gt; <a class="trait" href="serde/ser/trait.Serialize.html" title="trait serde::ser::Serialize">Serialize</a> for <a class="struct" href="martian/struct.StageDef.html" title="struct martian::StageDef">StageDef</a>&lt;T&gt; <span class="where fmt-newline">where<br>&nbsp;&nbsp;&nbsp;&nbsp;T: <a class="trait" href="serde/ser/trait.Serialize.html" title="trait serde::ser::Serialize">Serialize</a>,&nbsp;</span>''),
      (''synthetic'', JBool False),
      (''types'', JArr [JStr ''martian::stage::StageDef''])],
     JObj [(''text'', JStr ''impl <a class="trait" href="serde/ser/trait.Serialize.html" title="trait serde::ser::Serialize">Serialize</a> for <a class="enum" href="martian/mro/enum.MartianPrimaryType.html" title="enum martian::mro::MartianPrimaryType">MartianPrimaryType</a>''),
      (''synthetic'', JBool False),
      (''types'', JArr [JStr ''martian::mro::MartianPrimaryType''])],
     JObj [(''text'', JStr ''impl <a class="trait" href="serde/ser/trait.Serialize.html" title="trait serde::ser::Serialize">Serialize</a> for <a class="enum" href="martian/mro/enum.MartianBlanketType.html" title="enum martian::mro::MartianBlanketType">MartianBlanketType</a>''),
      (''synthetic'', JBool False),
      (''types'', JArr [JStr ''martian::mro::MartianBlanketType''])],
     JObj [(''text'', JStr ''impl <a class="trait" href="serde/ser/trait.Serialize.html" title="trait serde::ser::Serialize">Serialize</a> for <a class="struct" href="martian/mro/struct.MroField.html" title="struct martian::mro::MroField">MroField</a>''),
      (''synthetic'', JBool False),
      (''types'', JArr [JStr ''martian::mro::MroField''])],
     JObj [(''text'', JStr ''impl <a class="trait" href="serde/ser/trait.Serialize.html" title="trait serde::ser::Serialize">Serialize</a> for <a class="enum" href="martian/mro/enum.Volatile.html" title="enum martian::mro::Volatile">Volatile</a>''),
      (''synthetic'', JBool False),
      (''types'', JArr [JStr ''martian::mro::Volatile''])],
     JObj [(''text'', JStr ''impl <a class="trait" href="serde/ser/trait.Serialize.html" title="trait serde::ser::Serialize">Serialize</a> for <a class="struct" href="martian/mro/struct.MroUsing.html" title="struct martian::mro::MroUsing">MroUsing</a>''),
      (''synthetic'', JBool False),
      (''types'', JArr [JStr ''martian::mro::MroUsing''])]]\<close>

definition serde_json_impls :: jsval where
  \<open>serde_json_impls = JArr
    [JObj [(''text'', JStr ''impl <a class="trait" href="serde/ser/trait.Serialize.html" title="trait serde::ser::Serialize">Serialize</a> for <a class="struct" href="serde_json/map/struct.Map.html" title="struct serde_json::map::Map">Map</a>&lt;<a class="struct" href="https://doc.rust-lang.org/nightly/alloc/string/struct.String.html" title="struct alloc::string::String">String</a>, <a class="enum" href="serde_json/value/enum.Value.html" title="enum serde_json::value::Value">Value</a>&gt;''),
      (''synthetic'', JBool False),
      (''types'', JArr [JStr ''serde_json::map::Map''])],
     JObj [(''text'', JStr ''impl <a class="trait" href="serde/ser/trait.Serialize.html" title="trait serde::ser::Serialize">Serialize</a> for <a class="enum" href="serde_json/value/enum.Value.html" title="enum serde_json::value::Value">Value</a>''),
      (''synthetic'', JBool False),
      (''types'', JArr [JStr ''serde_json::value::Value''])],
     JObj [(''text'', JStr ''impl <a class="trait" href="serde/ser/trait.Serialize.html" title="trait serde::ser::Serialize">Serialize</a> for <a class="struct" href="serde_json/struct.Number.html" title="struct serde_json::Number">Number</a>''),
      (''synthetic'', JBool False),
      (''types'', JArr [JStr ''serde_json::number::Number''])]]\<close>

text \<open>
  \<^verbatim>\<open>var implementors = {}; implementors["martian"] = ...; implementors["serde_json"] = ...;\<close>
\<close>

definition implementors :: jsval where
  "implementors =
     put_prop (put_prop (JObj []) ''martian'' martian_impls) ''serde_json'' serde_json_impls"

text \<open>
  The body of the immediately invoked function:
  \<^verbatim>\<open>
  if (window.register_implementors) {
      window.register_implementors(implementors);
  } else {
      window.pending_implementors = implementors;
  }
  \<close>
\<close>

definition trait_Serialize_js :: "funs \<Rightarrow> window \<Rightarrow> outcome" where
  "trait_Serialize_js fs w =
     (if truthy (read_prop w ''register_implementors'')
      then invoke fs (read_prop w ''register_implementors'') implementors w
      else \<lparr>win = w(''pending_implementors'' \<mapsto> implementors),
             trace = [Assign ''pending_implementors'' implementors],
             raised = None\<rparr>)"

section \<open>The sidebar index\<close>

text \<open>
  The second file is one statement, \<^verbatim>\<open>initSidebarItems({...});\<close>. Its argument is an object
  from category tags to arrays of records; each record is a two-element array.
\<close>

definition sidebar_items :: jsval where
  \<open>sidebar_items = JObj
    [(''constant'', JArr
      [JArr [JStr ''MARTIAN_TOKENS'', JStr '''']]),
     (''enum'', JArr
      [JArr [JStr ''MartianBlanketType'', JStr ''Primary Data type + Arrays (which are derived from primary types)''],
       JArr [JStr ''MartianPrimaryType'', JStr ''Primary data types in Martian world''],
       JArr [JStr ''Volatile'', JStr '''']]),
     (''struct'', JArr
      [JArr [JStr ''FiletypeHeader'', JStr ''The list of filetypes we list at the top of the mro A simple wrapper around a HashSet of all file extensions.''],
       JArr [JStr ''InAndOut'', JStr ''Input and outputs together''],
       JArr [JStr ''MroField'', JStr ''Each variable that is listed in the mro along with it's type form a `MroField`. For example, the following stage: `mro stage SORT_ITEMS(     in  int[] unsorted,     in  bool  reverse,     out int[] sorted,     src comp  "my_stage martian sort_items", ) ` contains 3 `MroFields` - MroField { name: unsorted, ty: MartianBlanketType::Array(MartianPrimaryType::Int)} - MroField { name: reverse, ty: MartianBlanketType::Primary(MartianPrimaryType::Bool)} - MroField { name: sorted, ty: MartianBlanketType::Array(MartianPrimaryType::Int)}''],
       JArr [JStr ''MroUsing'', JStr ''Stuff that comes in the `using` section of a stage definition For example: `mro using (     mem_gb  = 4,     threads = 16, ) `''],
       JArr [JStr ''StageMro'', JStr ''All the data needed to create a stage definition mro. TODO: Retain'']]),
     (''trait'', JArr
      [JArr [JStr ''AsMartianBlanketType'', JStr ''A trait that defines how to convert this Rust type into an `MartianBlanketType`. Not all rust types can be converted to an `MartianBlanketType`. Not defined for - Unit, the type of () in Rust. - Unit Struct For example `struct Unit` or `PhantomData<T>`. It represents     a named value containing no data. Any type which implements `AsMartianPrimaryType` also implements `AsMartianBlanketType` It is stringly recommended not to extend any types with this trait, instead use the `AsMartianPrimaryType` trait.''],
       JArr [JStr ''AsMartianPrimaryType'', JStr ''A trait that tells you how to convert a Rust data type to a basic Martian type.''],
       JArr [JStr ''MartianStruct'', JStr ''A trait that defines how to expand a struct into a list of `MroField`s The `MartianStage` and `MartianMain` traits already has independent associated types for stage/chunk inputs and outputs. If those associated types implement this trait, then we can readily generate all the mro variables with the appropriate type and put them at the right place (withing stage def or chunk def).''],
       JArr [JStr ''MroDisplay'', JStr ''Defines how an entity that denotes some part of the mro is displayed''],
       JArr [JStr ''MroMaker'', JStr ''Can be auto generated using proc macro attribute #[make_mro] on MartianMain or MartianStage implementations if the associated types implement `MartianStruct`'']])]\<close>

text \<open>
  \<^verbatim>\<open>initSidebarItems\<close> is a free identifier, resolved in the global object: an identifier
  that is not bound raises \<^verbatim>\<open>ReferenceError\<close>.
\<close>

definition sidebar_items_js :: "funs \<Rightarrow> window \<Rightarrow> outcome" where
  "sidebar_items_js fs w =
     (case w ''initSidebarItems'' of
        None \<Rightarrow> \<lparr>win = w, trace = [], raised = Some ReferenceError\<rparr>
      | Some callee \<Rightarrow> invoke fs callee sidebar_items w)"


section \<open>Reading the tables\<close>

text \<open>
  The fields of an entry of the implementors table, the entries a crate is given, and the
  crates of the table in the order the script adds them.
\<close>

definition text_of :: "jsval \<Rightarrow> string" where
  "text_of e = (case str_of (get_prop e ''text'') of Some s \<Rightarrow> s | None \<Rightarrow> [])"

definition types_of :: "jsval \<Rightarrow> string list" where
  "types_of e = List.map_filter str_of (elems (get_prop e ''types''))"

definition entries :: "jsval \<Rightarrow> string \<Rightarrow> jsval list" where
  "entries tbl crate = elems (get_prop tbl crate)"

definition crates :: "jsval \<Rightarrow> string list" where
  "crates tbl = map fst (props tbl)"

definition all_entries :: "jsval \<Rightarrow> jsval list" where
  "all_entries tbl = concat (map (entries tbl) (crates tbl))"

text \<open>
  The \<^verbatim>\<open>text\<close> of an entry is HTML. \<open>plain\<close> is the text a browser shows for it: tags
  are dropped and the character entities are decoded (\<^verbatim>\<open>&nbsp;\<close> as a space).
\<close>

fun strip_tags :: "bool \<Rightarrow> string \<Rightarrow> string" where
  "strip_tags inside [] = []"
| "strip_tags inside (c # cs) =
     (if inside then (if c = CHR ''>'' then strip_tags False cs else strip_tags True cs)
      else (if c = CHR ''<'' then strip_tags True cs else c # strip_tags False cs))"

definition entity_chars :: "string \<Rightarrow> string" where
  "entity_chars name =
     (case map_of [(''lt'', ''<''), (''gt'', ''>''), (''amp'', ''&''), (''nbsp'', '' '')] name of
        Some s \<Rightarrow> s
      | None \<Rightarrow> ''&'' @ name @ '';'')"

fun decode_entities :: "string option \<Rightarrow> string \<Rightarrow> string" where
  "decode_entities None [] = []"
| "decode_entities (Some name) [] = CHR ''&'' # name"
| "decode_entities None (c # cs) =
     (if c = CHR ''&'' then decode_entities (Some []) cs else c # decode_entities None cs)"
| "decode_entities (Some name) (c # cs) =
     (if c = CHR '';'' then entity_chars name @ decode_entities None cs
      else decode_entities (Some (name @ [c])) cs)"

definition plain :: "string \<Rightarrow> string" where
  "plain s = decode_entities None (strip_tags False s)"

text \<open>
  rustdoc writes an implementation as \<^verbatim>\<open>impl\<close>, the generic parameters, a link to the
  trait, \<^verbatim>\<open>for\<close>, and the implementing type. \<open>implemented_trait\<close> reads the generic
  parameters and the \<^verbatim>\<open>title\<close> of the trait's link, which holds the trait's full path.
\<close>

fun strip_prefix :: "string \<Rightarrow> string \<Rightarrow> string option" where
  "strip_prefix [] s = Some s"
| "strip_prefix (p # ps) [] = None"
| "strip_prefix (p # ps) (c # cs) = (if p = c then strip_prefix ps cs else None)"

fun split_on :: "string \<Rightarrow> string \<Rightarrow> (string \<times> string) option" where
  "split_on pat [] = (if pat = [] then Some ([], []) else None)"
| "split_on pat (c # cs) =
     (case strip_prefix pat (c # cs) of
        Some r \<Rightarrow> Some ([], r)
      | None \<Rightarrow> map_option (\<lambda>(a, b). (c # a, b)) (split_on pat cs))"

definition implemented_trait :: "string \<Rightarrow> (string \<times> string) option" where
  \<open>implemented_trait s =
     Option.bind (strip_prefix ''impl'' s) (\<lambda>r0.
     Option.bind (split_on '' <a class="trait" href="'' r0) (\<lambda>(g, r1).
     Option.bind (split_on ''" title="'' r1) (\<lambda>(h, r2).
     Option.bind (split_on ''">'' r2) (\<lambda>(t, r3).
     Option.bind (split_on ''</a> for '' r3) (\<lambda>(l, r4). Some (g, t))))))\<close>

text \<open>
  The sidebar index: its category tags, and its records. A record is a two-element array of
  strings, the item's name and its doc comment.
\<close>

definition categories :: "jsval \<Rightarrow> string list" where
  "categories x = map fst (props x)"

definition records_of :: "jsval \<Rightarrow> string \<Rightarrow> jsval list" where
  "records_of x tag = elems (get_prop x tag)"

fun is_record :: "jsval \<Rightarrow> bool" where
  "is_record (JArr [JStr name, JStr doc]) = True"
| "is_record x = False"

fun record_name :: "jsval \<Rightarrow> string" where
  "record_name (JArr (JStr name # rest)) = name"
| "record_name x = []"

section \<open>Implementations as Rust declarations\<close>

text \<open>
  What an entry of the table declares, in Rust's terms: the generic parameters, the trait,
  the implementing type (as rustdoc shows it, and its path from the \<^verbatim>\<open>types\<close> field), and
  the bounds of the \<^verbatim>\<open>where\<close> clause. \<open>show_impl\<close> writes a declaration the way rustdoc
  shows it, so that the declarations below can be compared with the table's own text.
\<close>

datatype rust_ty = Ty string "rust_ty list"

record impl_decl =
  params :: "string list"
  trait :: string
  self_label :: string
  self_path :: string
  bounds :: "(string \<times> string) list"

fun commas :: "string list \<Rightarrow> string" where
  "commas [] = []"
| "commas [x] = x"
| "commas (x # y # ys) = x @ '', '' @ commas (y # ys)"

definition angle :: "string list \<Rightarrow> string" where
  "angle ps = (if ps = [] then [] else ''<'' @ commas ps @ ''>'')"

definition show_where :: "(string \<times> string) list \<Rightarrow> string" where
  "show_where bs =
     (if bs = [] then []
      else '' where'' @ concat (map (\<lambda>(p, t). ''    '' @ p @ '': '' @ t @ '','') bs) @ '' '')"

definition show_impl :: "impl_decl \<Rightarrow> string" where
  "show_impl d =
     ''impl'' @ angle (params d) @ '' '' @ trait d @ '' for '' @ self_label d @ angle (params d)
       @ show_where (bounds d)"

definition plain_impl :: "string \<Rightarrow> string \<Rightarrow> impl_decl" where
  "plain_impl label path =
     \<lparr>params = [], trait = ''Serialize'', self_label = label, self_path = path, bounds = []\<rparr>"

definition martian_decls :: "impl_decl list" where
  "martian_decls =
     [plain_impl ''MartianVoid'' ''martian::types::MartianVoid'',
      plain_impl ''Resource'' ''martian::stage::Resource'',
      \<lparr>params = [''T''], trait = ''Serialize'', self_label = ''StageDef'',
        self_path = ''martian::stage::StageDef'', bounds = [(''T'', ''Serialize'')]\<rparr>,
      plain_impl ''MartianPrimaryType'' ''martian::mro::MartianPrimaryType'',
      plain_impl ''MartianBlanketType'' ''martian::mro::MartianBlanketType'',
      plain_impl ''MroField'' ''martian::mro::MroField'',
      plain_impl ''Volatile'' ''martian::mro::Volatile'',
      plain_impl ''MroUsing'' ''martian::mro::MroUsing'']"

text \<open>
  A declaration applies to a type when the type's path is the declaration's, the type
  arguments fill the generic parameters, and every bound \<^verbatim>\<open>P: Trait\<close> holds of the argument
  put for \<^verbatim>\<open>P\<close>. Whether a type argument satisfies a trait is decided outside the
  declaration, by \<open>sat\<close>. \<open>has_impl\<close>: some declaration of the list implements the trait
  for the type.
\<close>

definition bound_holds ::
  "(string \<Rightarrow> rust_ty \<Rightarrow> bool) \<Rightarrow> (string \<times> rust_ty) list \<Rightarrow> string \<times> string \<Rightarrow> bool" where
  "bound_holds sat subst b =
     (case map_of subst (fst b) of Some a \<Rightarrow> sat (snd b) a | None \<Rightarrow> False)"

fun applies :: "(string \<Rightarrow> rust_ty \<Rightarrow> bool) \<Rightarrow> impl_decl \<Rightarrow> rust_ty \<Rightarrow> bool" where
  "applies sat d (Ty path args) =
     (path = self_path d \<and> length args = length (params d) \<and>
      list_all (bound_holds sat (zip (params d) args)) (bounds d))"

definition has_impl ::
  "(string \<Rightarrow> rust_ty \<Rightarrow> bool) \<Rightarrow> impl_decl list \<Rightarrow> string \<Rightarrow> rust_ty \<Rightarrow> bool" where
  "has_impl sat ds tr ty = list_ex (\<lambda>d. trait d = tr \<and> applies sat d ty) ds"

text \<open>
  The types the table implements a trait for without any bound: the satisfaction relation
  that looks only at the table.
\<close>

definition unconditional :: "string \<Rightarrow> rust_ty \<Rightarrow> bool" where
  "unconditional = has_impl (\<lambda>tr ty. False) martian_decls"

section \<open>Observing a run\<close>

text \<open>
  The calls and the assignments of a trace, a test for function values, a page whose
  callbacks do nothing, and some pages the scripts can be loaded into.
\<close>

definition calls :: "event list \<Rightarrow> (nat \<times> jsval) list" where
  "calls es = concat (map (\<lambda>e. case e of Invoke f a \<Rightarrow> [(f, a)] | Assign k v \<Rightarrow> []) es)"

definition writes :: "event list \<Rightarrow> (string \<times> jsval) list" where
  "writes es = concat (map (\<lambda>e. case e of Invoke f a \<Rightarrow> [] | Assign k v \<Rightarrow> [(k, v)]) es)"

definition is_function :: "jsval \<Rightarrow> bool" where
  "is_function v = (case v of JFun f \<Rightarrow> True | _ \<Rightarrow> False)"

definition idle :: funs where
  "idle f arg w = (w, None)"

definition blank_page :: window where
  "blank_page = Map.empty"

definition hooked_page :: window where
  "hooked_page = [''register_implementors'' \<mapsto> JFun 0]"

definition switched_off_page :: window where
  "switched_off_page = [''register_implementors'' \<mapsto> JBool False]"

definition numbered_page :: window where
  "numbered_page = [''register_implementors'' \<mapsto> JNum 1]"

definition zeroed_page :: window where
  "zeroed_page = [''register_implementors'' \<mapsto> JNum 0]"

definition sidebar_page :: window where
  "sidebar_page = [''initSidebarItems'' \<mapsto> JFun 1]"

definition stale_sidebar_page :: window where
  "stale_sidebar_page = [''initSidebarItems'' \<mapsto> JStr ''sidebar'']"

section \<open>The implementors table\<close>

lemma crates_implementors: "crates implementors = [''martian'', ''serde_json'']"
  by (simp add: crates_def implementors_def)

lemma entries_martian: "entries implementors ''martian'' = elems martian_impls"
  by (simp add: entries_def implementors_def get_prop_def)

lemma entries_serde_json: "entries implementors ''serde_json'' = elems serde_json_impls"
  by (simp add: entries_def implementors_def get_prop_def)

lemma martian_types:
  "concat (map types_of (entries implementors ''martian'')) =
     [''martian::types::MartianVoid'', ''martian::stage::Resource'',
      ''martian::stage::StageDef'', ''martian::mro::MartianPrimaryType'',
      ''martian::mro::MartianBlanketType'', ''martian::mro::MroField'',
      ''martian::mro::Volatile'', ''martian::mro::MroUsing'']"
  by (simp add: entries_martian martian_impls_def get_prop_def types_of_def)

lemma martian_plain_texts:
  "map (plain \<circ> text_of) (entries implementors ''martian'') =
     [''impl Serialize for MartianVoid'', ''impl Serialize for Resource'',
      ''impl<T> Serialize for StageDef<T> where    T: Serialize, '',
      ''impl Serialize for MartianPrimaryType'', ''impl Serialize for MartianBlanketType'',
      ''impl Serialize for MroField'', ''impl Serialize for Volatile'',
      ''impl Serialize for MroUsing'']"
  by (simp add: entries_martian martian_impls_def get_prop_def text_of_def plain_def
      entity_chars_def)

lemma martian_entries_length: "length (entries implementors ''martian'') = 8"
  by (simp add: entries_martian martian_impls_def)

text \<open>
  C1. The types of the martian crate that the table gives a \<^verbatim>\<open>Serialize\<close> implementation
  are exactly eight: \<^verbatim>\<open>MartianVoid\<close> (the empty-payload marker), \<^verbatim>\<open>Resource\<close>, the generic
  \<^verbatim>\<open>StageDef<T>\<close>, \<^verbatim>\<open>MartianPrimaryType\<close>, \<^verbatim>\<open>MartianBlanketType\<close>, \<^verbatim>\<open>MroField\<close>,
  \<^verbatim>\<open>Volatile\<close> and \<^verbatim>\<open>MroUsing\<close>; no entry is missing and none is repeated.
\<close>

theorem C1_martian_implementors:
  "length (entries implementors ''martian'') = 8 \<and>
   concat (map types_of (entries implementors ''martian'')) =
     [''martian::types::MartianVoid'', ''martian::stage::Resource'',
      ''martian::stage::StageDef'', ''martian::mro::MartianPrimaryType'',
      ''martian::mro::MartianBlanketType'', ''martian::mro::MroField'',
      ''martian::mro::Volatile'', ''martian::mro::MroUsing''] \<and>
   distinct (concat (map types_of (entries implementors ''martian''))) \<and>
   map (plain \<circ> text_of) (entries implementors ''martian'') =
     [''impl Serialize for MartianVoid'', ''impl Serialize for Resource'',
      ''impl<T> Serialize for StageDef<T> where    T: Serialize, '',
      ''impl Serialize for MartianPrimaryType'', ''impl Serialize for MartianBlanketType'',
      ''impl Serialize for MroField'', ''impl Serialize for Volatile'',
      ''impl Serialize for MroUsing'']"
proof -
  have "distinct (concat (map types_of (entries implementors ''martian'')))"
    unfolding martian_types by simp
  then show ?thesis
    using martian_entries_length martian_types martian_plain_texts by simp
qed

lemma all_entries_implementors:
  "all_entries implementors = elems martian_impls @ elems serde_json_impls"
  by (simp add: all_entries_def crates_implementors entries_martian entries_serde_json)

lemma martian_traits:
  \<open>map (implemented_trait \<circ> text_of) (elems martian_impls) =
     [Some ([], ''trait serde::ser::Serialize''),
      Some ([], ''trait serde::ser::Serialize''),
      Some (''&lt;T&gt;'', ''trait serde::ser::Serialize''),
      Some ([], ''trait serde::ser::Serialize''),
      Some ([], ''trait serde::ser::Serialize''),
      Some ([], ''trait serde::ser::Serialize''),
      Some ([], ''trait serde::ser::Serialize''),
      Some ([], ''trait serde::ser::Serialize'')]\<close>
  by (simp add: martian_impls_def get_prop_def text_of_def implemented_trait_def)

lemma serde_json_traits:
  \<open>map (implemented_trait \<circ> text_of) (elems serde_json_impls) =
     [Some ([], ''trait serde::ser::Serialize''),
      Some ([], ''trait serde::ser::Serialize''),
      Some ([], ''trait serde::ser::Serialize'')]\<close>
  by (simp add: serde_json_impls_def get_prop_def text_of_def implemented_trait_def)

text \<open>
  C3. The table maps one trait to its implementors: it has the two crates \<^verbatim>\<open>martian\<close> and
  \<^verbatim>\<open>serde_json\<close>, and each of the eleven entries of their lists is an implementation of
  the same trait, whose link is titled \<^verbatim>\<open>trait serde::ser::Serialize\<close>. It is the first
  link of the entry: the only text before it is \<^verbatim>\<open>impl\<close> and, for \<^verbatim>\<open>StageDef\<close>, the
  generic parameter \<^verbatim>\<open><T>\<close>.
\<close>

theorem C3_single_trait:
  \<open>crates implementors = [''martian'', ''serde_json''] \<and>
   length (all_entries implementors) = 11 \<and>
   map (map_option snd \<circ> implemented_trait \<circ> text_of) (all_entries implementors) =
     replicate 11 (Some ''trait serde::ser::Serialize'') \<and>
   map (map_option (plain \<circ> fst) \<circ> implemented_trait \<circ> text_of) (all_entries implementors) =
     [Some [], Some [], Some ''<T>'', Some [], Some [], Some [], Some [], Some [],
      Some [], Some [], Some []]\<close>
proof -
  have len: "length (all_entries implementors) = 11"
    by (simp add: all_entries_implementors martian_impls_def serde_json_impls_def)
  have all: \<open>map (implemented_trait \<circ> text_of) (all_entries implementors) =
     [Some ([], ''trait serde::ser::Serialize''),
      Some ([], ''trait serde::ser::Serialize''),
      Some (''&lt;T&gt;'', ''trait serde::ser::Serialize''),
      Some ([], ''trait serde::ser::Serialize''),
      Some ([], ''trait serde::ser::Serialize''),
      Some ([], ''trait serde::ser::Serialize''),
      Some ([], ''trait serde::ser::Serialize''),
      Some ([], ''trait serde::ser::Serialize''),
      Some ([], ''trait serde::ser::Serialize''),
      Some ([], ''trait serde::ser::Serialize''),
      Some ([], ''trait serde::ser::Serialize'')]\<close>
    unfolding all_entries_implementors map_append martian_traits serde_json_traits by simp
  have titles: "map (map_option snd \<circ> implemented_trait \<circ> text_of) (all_entries implementors) =
      replicate 11 (Some ''trait serde::ser::Serialize'')"
  proof -
    have "map (map_option snd \<circ> implemented_trait \<circ> text_of) (all_entries implementors) =
        map (map_option snd) (map (implemented_trait \<circ> text_of) (all_entries implementors))"
      by simp
    then show ?thesis
      unfolding all by (simp add: numeral_eq_Suc)
  qed
  have generics: "map (map_option (plain \<circ> fst) \<circ> implemented_trait \<circ> text_of)
      (all_entries implementors) =
      [Some [], Some [], Some ''<T>'', Some [], Some [], Some [], Some [], Some [],
       Some [], Some [], Some []]"
  proof -
    have "map (map_option (plain \<circ> fst) \<circ> implemented_trait \<circ> text_of)
          (all_entries implementors) =
        map (map_option (plain \<circ> fst))
          (map (implemented_trait \<circ> text_of) (all_entries implementors))"
      by simp
    then show ?thesis
      unfolding all by (simp add: plain_def entity_chars_def)
  qed
  show ?thesis
    using crates_implementors len titles generics by simp
qed

section \<open>The bound on \<^verbatim>\<open>StageDef\<close>\<close>

lemma martian_decls_shown:
  "map show_impl martian_decls = map (plain \<circ> text_of) (entries implementors ''martian'')"
  unfolding martian_plain_texts
  by (simp add: martian_decls_def plain_impl_def show_impl_def angle_def show_where_def)

lemma martian_decls_paths:
  "map self_path martian_decls = concat (map types_of (entries implementors ''martian''))"
  unfolding martian_types
  by (simp add: martian_decls_def plain_impl_def)

lemma stagedef_impl:
  "has_impl sat martian_decls ''Serialize'' (Ty ''martian::stage::StageDef'' [t]) =
     sat ''Serialize'' t"
  by (simp add: has_impl_def martian_decls_def plain_impl_def bound_holds_def)

lemma sidebar_structs:
  "map record_name (records_of sidebar_items ''struct'') =
     [''FiletypeHeader'', ''InAndOut'', ''MroField'', ''MroUsing'', ''StageMro'']"
  by (simp add: records_of_def sidebar_items_def get_prop_def)

text \<open>
  C4, as the claim states it, says that \<^verbatim>\<open>StageDef<T>\<close> has a \<^verbatim>\<open>Serialize\<close>
  implementation in the table for every \<^verbatim>\<open>T\<close>. It fails at \<^verbatim>\<open>T = StageMro\<close>: \<^verbatim>\<open>StageMro\<close>
  is a struct of the crate (the sidebar index lists it) that the table gives no
  \<^verbatim>\<open>Serialize\<close> implementation, so the bound of the recorded implementation is not met.
\<close>

theorem C4_unbounded_counterexample:
  "''StageMro'' \<in> set (map record_name (records_of sidebar_items ''struct'')) \<and>
   \<not> unconditional ''Serialize'' (Ty ''martian::mro::StageMro'' []) \<and>
   \<not> has_impl unconditional martian_decls ''Serialize''
       (Ty ''martian::stage::StageDef'' [Ty ''martian::mro::StageMro'' []])"
  unfolding sidebar_structs
  by (simp add: unconditional_def has_impl_def martian_decls_def plain_impl_def bound_holds_def)

text \<open>
  C4, amended. The declarations \<open>martian_decls\<close> are the entries of the table (they show
  as the entries' text, and their paths are the entries' \<^verbatim>\<open>types\<close>), and by them
  \<^verbatim>\<open>StageDef<T>\<close> has a \<^verbatim>\<open>Serialize\<close> implementation exactly for the types \<^verbatim>\<open>T\<close> that
  satisfy \<^verbatim>\<open>Serialize\<close> themselves: the recorded implementation carries the bound
  \<^verbatim>\<open>where T: Serialize\<close>.
\<close>

theorem C4_stagedef_bound:
  "map show_impl martian_decls = map (plain \<circ> text_of) (entries implementors ''martian'') \<and>
   map self_path martian_decls = concat (map types_of (entries implementors ''martian'')) \<and>
   has_impl sat martian_decls ''Serialize'' (Ty ''martian::stage::StageDef'' [t]) =
     sat ''Serialize'' t"
  using martian_decls_shown martian_decls_paths stagedef_impl by simp

theorem C4_stagedef_bound_witness:
  "unconditional ''Serialize'' (Ty ''martian::stage::Resource'' []) \<and>
   has_impl unconditional martian_decls ''Serialize''
     (Ty ''martian::stage::StageDef'' [Ty ''martian::stage::Resource'' []])"
proof -
  have r: "unconditional ''Serialize'' (Ty ''martian::stage::Resource'' [])"
    by (simp add: unconditional_def has_impl_def martian_decls_def plain_impl_def)
  show ?thesis
    using r C4_stagedef_bound [of unconditional "Ty ''martian::stage::Resource'' []"] by simp
qed

section \<open>The sidebar index\<close>

text \<open>
  C5. The sidebar index has exactly the four category tags \<^verbatim>\<open>constant\<close>, \<^verbatim>\<open>enum\<close>,
  \<^verbatim>\<open>struct\<close> and \<^verbatim>\<open>trait\<close>, and every record filed under them (fourteen in all) is
  exactly an item name and a doc-comment string.
\<close>

theorem C5_sidebar_records:
  "categories sidebar_items = [''constant'', ''enum'', ''struct'', ''trait''] \<and>
   map (\<lambda>tag. length (records_of sidebar_items tag)) (categories sidebar_items) = [1, 3, 5, 5] \<and>
   list_all is_record (concat (map (records_of sidebar_items) (categories sidebar_items))) \<and>
   map (\<lambda>tag. map record_name (records_of sidebar_items tag)) (categories sidebar_items) =
     [[''MARTIAN_TOKENS''],
      [''MartianBlanketType'', ''MartianPrimaryType'', ''Volatile''],
      [''FiletypeHeader'', ''InAndOut'', ''MroField'', ''MroUsing'', ''StageMro''],
      [''AsMartianBlanketType'', ''AsMartianPrimaryType'', ''MartianStruct'', ''MroDisplay'',
       ''MroMaker'']]"
  by (simp add: categories_def records_of_def sidebar_items_def get_prop_def)

section \<open>Running the implementors script\<close>

lemma implementors_run_callable:
  assumes "read_prop w ''register_implementors'' = JFun f"
  shows "trait_Serialize_js fs w =
    \<lparr>win = fst (fs f implementors w), trace = [Invoke f implementors],
      raised = snd (fs f implementors w)\<rparr>"
  using assms by (simp add: trait_Serialize_js_def invoke_def)

lemma implementors_run_falsy:
  assumes "\<not> truthy (read_prop w ''register_implementors'')"
  shows "trait_Serialize_js fs w =
    \<lparr>win = w(''pending_implementors'' \<mapsto> implementors),
      trace = [Assign ''pending_implementors'' implementors], raised = None\<rparr>"
  using assms by (simp add: trait_Serialize_js_def)

lemma implementors_run_not_callable:
  assumes "truthy (read_prop w ''register_implementors'')"
    and "\<not> is_function (read_prop w ''register_implementors'')"
  shows "trait_Serialize_js fs w = \<lparr>win = w, trace = [], raised = Some TypeError\<rparr>"
  using assms
  by (cases "read_prop w ''register_implementors''")
    (simp_all add: trait_Serialize_js_def invoke_def is_function_def)

lemma page_reads:
  "read_prop blank_page ''register_implementors'' = JUndefined"
  "read_prop hooked_page ''register_implementors'' = JFun 0"
  "read_prop switched_off_page ''register_implementors'' = JBool False"
  "read_prop numbered_page ''register_implementors'' = JNum 1"
  "read_prop zeroed_page ''register_implementors'' = JNum 0"
  by (simp_all add: read_prop_def blank_page_def hooked_page_def switched_off_page_def
      numbered_page_def zeroed_page_def)

text \<open>
  C2, as the claim states it, says that whenever \<^verbatim>\<open>window.register_implementors\<close> is
  defined it is called exactly once with the table and \<^verbatim>\<open>window.pending_implementors\<close>
  is left unchanged. The script tests the value for truthiness and then calls it. On a
  page where the property is \<^verbatim>\<open>false\<close> (defined, but falsy) nothing is called and
  \<^verbatim>\<open>pending_implementors\<close> is assigned; on a page where it is \<^verbatim>\<open>1\<close> (defined and truthy,
  but no function) nothing is called either: the call raises \<^verbatim>\<open>TypeError\<close>.
\<close>

theorem C2_defined_counterexample:
  "read_prop switched_off_page ''register_implementors'' \<noteq> JUndefined \<and>
   calls (trace (trait_Serialize_js idle switched_off_page)) = [] \<and>
   win (trait_Serialize_js idle switched_off_page) ''pending_implementors'' \<noteq>
     switched_off_page ''pending_implementors'' \<and>
   read_prop numbered_page ''register_implementors'' \<noteq> JUndefined \<and>
   calls (trace (trait_Serialize_js idle numbered_page)) = [] \<and>
   raised (trait_Serialize_js idle numbered_page) = Some TypeError"
proof -
  have a: "trait_Serialize_js idle switched_off_page =
      \<lparr>win = switched_off_page(''pending_implementors'' \<mapsto> implementors),
        trace = [Assign ''pending_implementors'' implementors], raised = None\<rparr>"
    by (rule implementors_run_falsy) (simp add: page_reads)
  have b: "trait_Serialize_js idle numbered_page =
      \<lparr>win = numbered_page, trace = [], raised = Some TypeError\<rparr>"
    by (rule implementors_run_not_callable) (simp_all add: page_reads is_function_def)
  have p: "switched_off_page ''pending_implementors'' = None"
    by (simp add: switched_off_page_def)
  show ?thesis
    unfolding a b by (simp add: page_reads calls_def p)
qed

text \<open>
  C2, amended. Exactly one of the two branches runs, chosen by the truthiness of
  \<^verbatim>\<open>window.register_implementors\<close>. If the value is a function, it is called exactly once,
  with the table, and the script assigns nothing: the global object is as the callback
  leaves it. If the value is falsy (\<^verbatim>\<open>undefined\<close> or any other falsy value), nothing
  is called and \<^verbatim>\<open>window.pending_implementors\<close> is set to the table. A truthy value that
  is no function takes the first branch, where the call raises \<^verbatim>\<open>TypeError\<close>: nothing is
  called and nothing is assigned.
\<close>

theorem C2_one_branch_runs:
  "(read_prop w ''register_implementors'' = JFun f \<longrightarrow>
      calls (trace (trait_Serialize_js fs w)) = [(f, implementors)] \<and>
      writes (trace (trait_Serialize_js fs w)) = [] \<and>
      win (trait_Serialize_js fs w) = fst (fs f implementors w) \<and>
      raised (trait_Serialize_js fs w) = snd (fs f implementors w)) \<and>
   (\<not> truthy (read_prop w ''register_implementors'') \<longrightarrow>
      calls (trace (trait_Serialize_js fs w)) = [] \<and>
      writes (trace (trait_Serialize_js fs w)) = [(''pending_implementors'', implementors)] \<and>
      read_prop (win (trait_Serialize_js fs w)) ''pending_implementors'' = implementors \<and>
      raised (trait_Serialize_js fs w) = None) \<and>
   (truthy (read_prop w ''register_implementors'') \<and>
    \<not> is_function (read_prop w ''register_implementors'') \<longrightarrow>
      calls (trace (trait_Serialize_js fs w)) = [] \<and>
      writes (trace (trait_Serialize_js fs w)) = [] \<and>
      raised (trait_Serialize_js fs w) = Some TypeError)"
proof (intro conjI impI)
  assume "read_prop w ''register_implementors'' = JFun f"
  note run = implementors_run_callable [OF this, of fs]
  show "calls (trace (trait_Serialize_js fs w)) = [(f, implementors)]"
    unfolding run by (simp add: calls_def)
  show "writes (trace (trait_Serialize_js fs w)) = []"
    unfolding run by (simp add: writes_def)
  show "win (trait_Serialize_js fs w) = fst (fs f implementors w)"
    unfolding run by simp
  show "raised (trait_Serialize_js fs w) = snd (fs f implementors w)"
    unfolding run by simp
next
  assume "\<not> truthy (read_prop w ''register_implementors'')"
  note run = implementors_run_falsy [OF this, of fs]
  show "calls (trace (trait_Serialize_js fs w)) = []"
    unfolding run by (simp add: calls_def)
  show "writes (trace (trait_Serialize_js fs w)) = [(''pending_implementors'', implementors)]"
    unfolding run by (simp add: writes_def)
  show "read_prop (win (trait_Serialize_js fs w)) ''pending_implementors'' = implementors"
    unfolding run by (simp add: read_prop_def)
  show "raised (trait_Serialize_js fs w) = None"
    unfolding run by simp
next
  assume "truthy (read_prop w ''register_implementors'') \<and>
    \<not> is_function (read_prop w ''register_implementors'')"
  then have run: "trait_Serialize_js fs w = \<lparr>win = w, trace = [], raised = Some TypeError\<rparr>"
    by (simp add: implementors_run_not_callable)
  show "calls (trace (trait_Serialize_js fs w)) = []"
    unfolding run by (simp add: calls_def)
  show "writes (trace (trait_Serialize_js fs w)) = []"
    unfolding run by (simp add: writes_def)
  show "raised (trait_Serialize_js fs w) = Some TypeError"
    unfolding run by simp
qed

theorem C2_one_branch_runs_witness:
  "read_prop hooked_page ''register_implementors'' = JFun 0 \<and>
   calls (trace (trait_Serialize_js idle hooked_page)) = [(0, implementors)] \<and>
   win (trait_Serialize_js idle hooked_page) = hooked_page \<and>
   \<not> truthy (read_prop blank_page ''register_implementors'') \<and>
   writes (trace (trait_Serialize_js idle blank_page)) =
     [(''pending_implementors'', implementors)] \<and>
   truthy (read_prop numbered_page ''register_implementors'') \<and>
   \<not> is_function (read_prop numbered_page ''register_implementors'') \<and>
   raised (trait_Serialize_js idle numbered_page) = Some TypeError"
  using C2_one_branch_runs [where w = hooked_page and f = 0 and fs = idle]
    C2_one_branch_runs [where w = blank_page and fs = idle]
    C2_one_branch_runs [where w = numbered_page and fs = idle]
  by (simp add: page_reads is_function_def idle_def)

section \<open>What a run leaves of the global object\<close>

text \<open>
  C7, as the claim states it, says that whenever \<^verbatim>\<open>window.register_implementors\<close> is
  defined the global object is left unchanged apart from the effects of the callback. On
  a page where the property is \<^verbatim>\<open>0\<close> (defined, but falsy) no callback runs, and yet the
  script changes the global object: it assigns \<^verbatim>\<open>pending_implementors\<close>.
\<close>

theorem C7_defined_counterexample:
  "read_prop zeroed_page ''register_implementors'' \<noteq> JUndefined \<and>
   calls (trace (trait_Serialize_js idle zeroed_page)) = [] \<and>
   win (trait_Serialize_js idle zeroed_page) \<noteq> zeroed_page"
proof -
  have run: "trait_Serialize_js idle zeroed_page =
      \<lparr>win = zeroed_page(''pending_implementors'' \<mapsto> implementors),
        trace = [Assign ''pending_implementors'' implementors], raised = None\<rparr>"
    by (rule implementors_run_falsy) (simp add: page_reads)
  have "(zeroed_page(''pending_implementors'' \<mapsto> implementors)) ''pending_implementors'' \<noteq>
      zeroed_page ''pending_implementors''"
    by (simp add: zeroed_page_def)
  then have "zeroed_page(''pending_implementors'' \<mapsto> implementors) \<noteq> zeroed_page"
    by metis
  then show ?thesis
    unfolding run by (simp add: page_reads calls_def)
qed

text \<open>
  C7, amended. The script assigns no property of \<^verbatim>\<open>window\<close> other than
  \<^verbatim>\<open>pending_implementors\<close>; in particular it never assigns \<^verbatim>\<open>register_implementors\<close>. In
  the assigning branch, taken when \<^verbatim>\<open>register_implementors\<close> is falsy, every other
  property keeps its value. When \<^verbatim>\<open>register_implementors\<close> is truthy the script assigns
  nothing: the global object is what the callback, started on the untouched global object,
  leaves of it, and it is untouched when the value is no function.
\<close>

theorem C7_frame:
  "set (map fst (writes (trace (trait_Serialize_js fs w)))) \<subseteq> {''pending_implementors''} \<and>
   ''register_implementors'' \<notin> set (map fst (writes (trace (trait_Serialize_js fs w)))) \<and>
   (\<not> truthy (read_prop w ''register_implementors'') \<longrightarrow>
      win (trait_Serialize_js fs w) = w(''pending_implementors'' \<mapsto> implementors) \<and>
      (k \<noteq> ''pending_implementors'' \<longrightarrow> win (trait_Serialize_js fs w) k = w k)) \<and>
   (truthy (read_prop w ''register_implementors'') \<longrightarrow>
      writes (trace (trait_Serialize_js fs w)) = []) \<and>
   (read_prop w ''register_implementors'' = JFun f \<longrightarrow>
      win (trait_Serialize_js fs w) = fst (fs f implementors w)) \<and>
   (truthy (read_prop w ''register_implementors'') \<and>
    \<not> is_function (read_prop w ''register_implementors'') \<longrightarrow>
      win (trait_Serialize_js fs w) = w)"
proof -
  have falsy: "win (trait_Serialize_js fs w) = w(''pending_implementors'' \<mapsto> implementors)"
    if "\<not> truthy (read_prop w ''register_implementors'')"
    using implementors_run_falsy [OF that, of fs] by simp
  have quiet: "writes (trace (trait_Serialize_js fs w)) = []"
    if "truthy (read_prop w ''register_implementors'')"
    using that
    by (cases "read_prop w ''register_implementors''")
      (simp_all add: trait_Serialize_js_def invoke_def writes_def)
  have own: "set (map fst (writes (trace (trait_Serialize_js fs w)))) \<subseteq> {''pending_implementors''}"
  proof (cases "truthy (read_prop w ''register_implementors'')")
    case True
    then show ?thesis by (simp add: quiet)
  next
    case False
    then show ?thesis
      using implementors_run_falsy [OF False, of fs] by (simp add: writes_def)
  qed
  have never: "''register_implementors'' \<notin> set (map fst (writes (trace (trait_Serialize_js fs w))))"
    using own by auto
  have called: "win (trait_Serialize_js fs w) = fst (fs f implementors w)"
    if "read_prop w ''register_implementors'' = JFun f"
    using implementors_run_callable [OF that, of fs] by simp
  have failed: "win (trait_Serialize_js fs w) = w"
    if "truthy (read_prop w ''register_implementors'')"
      and "\<not> is_function (read_prop w ''register_implementors'')"
    using implementors_run_not_callable [OF that, of fs] by simp
  show ?thesis
    using falsy quiet own never called failed by simp
qed

theorem C7_frame_witness:
  "\<not> truthy (read_prop blank_page ''register_implementors'') \<and>
   win (trait_Serialize_js idle blank_page) = blank_page(''pending_implementors'' \<mapsto> implementors) \<and>
   ''register_implementors'' \<noteq> ''pending_implementors'' \<and>
   win (trait_Serialize_js idle blank_page) ''register_implementors'' =
     blank_page ''register_implementors'' \<and>
   truthy (read_prop hooked_page ''register_implementors'') \<and>
   read_prop hooked_page ''register_implementors'' = JFun 0 \<and>
   writes (trace (trait_Serialize_js idle hooked_page)) = [] \<and>
   win (trait_Serialize_js idle hooked_page) = hooked_page \<and>
   truthy (read_prop numbered_page ''register_implementors'') \<and>
   \<not> is_function (read_prop numbered_page ''register_implementors'') \<and>
   win (trait_Serialize_js idle numbered_page) = numbered_page"
  using C7_frame [where w = blank_page and fs = idle and k = "''register_implementors''"]
    C7_frame [where w = hooked_page and f = 0 and fs = idle]
    C7_frame [where w = numbered_page and fs = idle]
  by (simp add: page_reads is_function_def idle_def)

section \<open>The executable content of the two files\<close>

lemma sidebar_run_callable:
  assumes "w ''initSidebarItems'' = Some (JFun f)"
  shows "sidebar_items_js fs w =
    \<lparr>win = fst (fs f sidebar_items w), trace = [Invoke f sidebar_items],
      raised = snd (fs f sidebar_items w)\<rparr>"
  using assms by (simp add: sidebar_items_js_def invoke_def)

lemma invoke_trace:
  "length (trace (invoke fs callee arg w)) \<le> 1 \<and> writes (trace (invoke fs callee arg w)) = []"
  by (cases callee) (simp_all add: invoke_def writes_def)

text \<open>
  C6, as the claim states it, says that executing the supplied files branches on nothing
  and has no effect on program state. Loaded into a blank page, the implementors script
  changes the global object (it assigns \<^verbatim>\<open>pending_implementors\<close>); loaded into a page that
  has \<^verbatim>\<open>register_implementors\<close>, the same script takes its other branch and calls it; and
  the sidebar file calls \<^verbatim>\<open>initSidebarItems\<close>.
\<close>

theorem C6_no_logic_counterexample:
  "win (trait_Serialize_js idle blank_page) \<noteq> blank_page \<and>
   writes (trace (trait_Serialize_js idle blank_page)) =
     [(''pending_implementors'', implementors)] \<and>
   calls (trace (trait_Serialize_js idle blank_page)) = [] \<and>
   writes (trace (trait_Serialize_js idle hooked_page)) = [] \<and>
   calls (trace (trait_Serialize_js idle hooked_page)) = [(0, implementors)] \<and>
   calls (trace (sidebar_items_js idle sidebar_page)) = [(1, sidebar_items)]"
proof -
  have a: "trait_Serialize_js idle blank_page =
      \<lparr>win = blank_page(''pending_implementors'' \<mapsto> implementors),
        trace = [Assign ''pending_implementors'' implementors], raised = None\<rparr>"
    by (rule implementors_run_falsy) (simp add: page_reads)
  have b: "trait_Serialize_js idle hooked_page =
      \<lparr>win = fst (idle 0 implementors hooked_page), trace = [Invoke 0 implementors],
        raised = snd (idle 0 implementors hooked_page)\<rparr>"
    by (rule implementors_run_callable) (simp add: page_reads)
  have c: "sidebar_items_js idle sidebar_page =
      \<lparr>win = fst (idle 1 sidebar_items sidebar_page), trace = [Invoke 1 sidebar_items],
        raised = snd (idle 1 sidebar_items sidebar_page)\<rparr>"
    by (rule sidebar_run_callable) (simp add: sidebar_page_def)
  have "(blank_page(''pending_implementors'' \<mapsto> implementors)) ''pending_implementors'' \<noteq>
      blank_page ''pending_implementors''"
    by (simp add: blank_page_def)
  then have "blank_page(''pending_implementors'' \<mapsto> implementors) \<noteq> blank_page"
    by metis
  then show ?thesis
    unfolding a b c by (simp add: calls_def writes_def)
qed

lemma sidebar_run_unbound:
  assumes "w ''initSidebarItems'' = None"
  shows "sidebar_items_js fs w = \<lparr>win = w, trace = [], raised = Some ReferenceError\<rparr>"
  using assms by (simp add: sidebar_items_js_def)

lemma sidebar_run_not_callable:
  assumes "w ''initSidebarItems'' = Some v" and "\<not> is_function v"
  shows "sidebar_items_js fs w = \<lparr>win = w, trace = [], raised = Some TypeError\<rparr>"
  using assms by (cases v) (simp_all add: sidebar_items_js_def invoke_def is_function_def)

text \<open>
  C6, amended. The supplied files hold no loop and no algorithm, but each is an executable
  script that acts on program state, with at most one call or assignment a run.

  The implementors script has one conditional, on the truthiness of
  \<^verbatim>\<open>window.register_implementors\<close>. When the value is a function, the script calls it
  once with the table and does nothing else: the global object and the exception raised
  are the callback's. When the value is falsy, the script calls nothing and assigns the
  table to \<^verbatim>\<open>window.pending_implementors\<close>, every other property kept, so the global
  object changes unless the table was there already. When the value is truthy and no
  function, the call raises \<^verbatim>\<open>TypeError\<close> and nothing is called or assigned.

  The sidebar file has no conditional and no assignment. When \<^verbatim>\<open>initSidebarItems\<close> is a
  function, the script calls it once with the index and does nothing else: the global
  object and the exception raised are the callback's. When \<^verbatim>\<open>initSidebarItems\<close> is not
  bound the call raises \<^verbatim>\<open>ReferenceError\<close>, and when it is bound to a value that is no
  function it raises \<^verbatim>\<open>TypeError\<close>; in both cases nothing is called and the global object
  is untouched.
\<close>

theorem C6_at_most_one_effect:
  "(read_prop w ''register_implementors'' = JFun f \<longrightarrow>
      trace (trait_Serialize_js fs w) = [Invoke f implementors] \<and>
      win (trait_Serialize_js fs w) = fst (fs f implementors w) \<and>
      raised (trait_Serialize_js fs w) = snd (fs f implementors w)) \<and>
   (\<not> truthy (read_prop w ''register_implementors'') \<longrightarrow>
      trace (trait_Serialize_js fs w) = [Assign ''pending_implementors'' implementors] \<and>
      win (trait_Serialize_js fs w) = w(''pending_implementors'' \<mapsto> implementors) \<and>
      raised (trait_Serialize_js fs w) = None) \<and>
   (\<not> truthy (read_prop w ''register_implementors'') \<and>
    w ''pending_implementors'' \<noteq> Some implementors \<longrightarrow>
      win (trait_Serialize_js fs w) \<noteq> w) \<and>
   (truthy (read_prop w ''register_implementors'') \<and>
    \<not> is_function (read_prop w ''register_implementors'') \<longrightarrow>
      trace (trait_Serialize_js fs w) = [] \<and>
      win (trait_Serialize_js fs w) = w \<and>
      raised (trait_Serialize_js fs w) = Some TypeError) \<and>
   (w ''initSidebarItems'' = Some (JFun g) \<longrightarrow>
      trace (sidebar_items_js fs w) = [Invoke g sidebar_items] \<and>
      win (sidebar_items_js fs w) = fst (fs g sidebar_items w) \<and>
      raised (sidebar_items_js fs w) = snd (fs g sidebar_items w)) \<and>
   (w ''initSidebarItems'' = None \<longrightarrow>
      trace (sidebar_items_js fs w) = [] \<and>
      win (sidebar_items_js fs w) = w \<and>
      raised (sidebar_items_js fs w) = Some ReferenceError) \<and>
   (w ''initSidebarItems'' = Some v \<and> \<not> is_function v \<longrightarrow>
      trace (sidebar_items_js fs w) = [] \<and>
      win (sidebar_items_js fs w) = w \<and>
      raised (sidebar_items_js fs w) = Some TypeError) \<and>
   length (trace (trait_Serialize_js fs w)) \<le> 1 \<and>
   length (trace (sidebar_items_js fs w)) \<le> 1"
proof -
  have called: "trace (trait_Serialize_js fs w) = [Invoke f implementors] \<and>
      win (trait_Serialize_js fs w) = fst (fs f implementors w) \<and>
      raised (trait_Serialize_js fs w) = snd (fs f implementors w)"
    if "read_prop w ''register_implementors'' = JFun f"
    using implementors_run_callable [OF that, of fs] by simp
  have assigned: "trace (trait_Serialize_js fs w) = [Assign ''pending_implementors'' implementors] \<and>
      win (trait_Serialize_js fs w) = w(''pending_implementors'' \<mapsto> implementors) \<and>
      raised (trait_Serialize_js fs w) = None"
    if "\<not> truthy (read_prop w ''register_implementors'')"
    using implementors_run_falsy [OF that, of fs] by simp
  have effect: "win (trait_Serialize_js fs w) \<noteq> w"
    if "\<not> truthy (read_prop w ''register_implementors'')"
      and "w ''pending_implementors'' \<noteq> Some implementors"
  proof -
    have "win (trait_Serialize_js fs w) ''pending_implementors'' = Some implementors"
      using implementors_run_falsy [OF that(1), of fs] by simp
    with that(2) show ?thesis by metis
  qed
  have failed: "trace (trait_Serialize_js fs w) = [] \<and>
      win (trait_Serialize_js fs w) = w \<and>
      raised (trait_Serialize_js fs w) = Some TypeError"
    if "truthy (read_prop w ''register_implementors'')"
      and "\<not> is_function (read_prop w ''register_implementors'')"
    using implementors_run_not_callable [OF that, of fs] by simp
  have side_called: "trace (sidebar_items_js fs w) = [Invoke g sidebar_items] \<and>
      win (sidebar_items_js fs w) = fst (fs g sidebar_items w) \<and>
      raised (sidebar_items_js fs w) = snd (fs g sidebar_items w)"
    if "w ''initSidebarItems'' = Some (JFun g)"
    using sidebar_run_callable [where w = w and f = g and fs = fs, OF that] by simp
  have side_unbound: "trace (sidebar_items_js fs w) = [] \<and>
      win (sidebar_items_js fs w) = w \<and>
      raised (sidebar_items_js fs w) = Some ReferenceError"
    if "w ''initSidebarItems'' = None"
    using sidebar_run_unbound [where w = w and fs = fs, OF that] by simp
  have side_failed: "trace (sidebar_items_js fs w) = [] \<and>
      win (sidebar_items_js fs w) = w \<and>
      raised (sidebar_items_js fs w) = Some TypeError"
    if "w ''initSidebarItems'' = Some v" and "\<not> is_function v"
    using sidebar_run_not_callable [where w = w and v = v and fs = fs, OF that] by simp
  have len1: "length (trace (trait_Serialize_js fs w)) \<le> 1"
    using invoke_trace [of fs "read_prop w ''register_implementors''" implementors w]
    by (simp add: trait_Serialize_js_def)
  have len2: "length (trace (sidebar_items_js fs w)) \<le> 1"
  proof (cases "w ''initSidebarItems''")
    case None
    then show ?thesis by (simp add: sidebar_items_js_def)
  next
    case (Some callee)
    then show ?thesis
      using invoke_trace [of fs callee sidebar_items w] by (simp add: sidebar_items_js_def)
  qed
  show ?thesis
    using called assigned effect failed side_called side_unbound side_failed len1 len2
    by simp
qed

theorem C6_at_most_one_effect_witness:
  "read_prop hooked_page ''register_implementors'' = JFun 0 \<and>
   trace (trait_Serialize_js idle hooked_page) = [Invoke 0 implementors] \<and>
   win (trait_Serialize_js idle hooked_page) = hooked_page \<and>
   \<not> truthy (read_prop blank_page ''register_implementors'') \<and>
   blank_page ''pending_implementors'' \<noteq> Some implementors \<and>
   trace (trait_Serialize_js idle blank_page) = [Assign ''pending_implementors'' implementors] \<and>
   win (trait_Serialize_js idle blank_page) \<noteq> blank_page \<and>
   truthy (read_prop numbered_page ''register_implementors'') \<and>
   \<not> is_function (read_prop numbered_page ''register_implementors'') \<and>
   trace (trait_Serialize_js idle numbered_page) = [] \<and>
   raised (trait_Serialize_js idle numbered_page) = Some TypeError \<and>
   sidebar_page ''initSidebarItems'' = Some (JFun 1) \<and>
   trace (sidebar_items_js idle sidebar_page) = [Invoke 1 sidebar_items] \<and>
   win (sidebar_items_js idle sidebar_page) = sidebar_page \<and>
   blank_page ''initSidebarItems'' = None \<and>
   raised (sidebar_items_js idle blank_page) = Some ReferenceError \<and>
   win (sidebar_items_js idle blank_page) = blank_page \<and>
   stale_sidebar_page ''initSidebarItems'' = Some (JStr ''sidebar'') \<and>
   \<not> is_function (JStr ''sidebar'') \<and>
   raised (sidebar_items_js idle stale_sidebar_page) = Some TypeError \<and>
   win (sidebar_items_js idle stale_sidebar_page) = stale_sidebar_page"
proof -
  have p: "blank_page ''pending_implementors'' \<noteq> Some implementors"
    and p': "blank_page ''initSidebarItems'' = None"
    by (simp_all add: blank_page_def)
  have q: "sidebar_page ''initSidebarItems'' = Some (JFun 1)"
    by (simp add: sidebar_page_def)
  have r: "stale_sidebar_page ''initSidebarItems'' = Some (JStr ''sidebar'')"
    by (simp add: stale_sidebar_page_def)
  have n: "\<not> is_function (JStr ''sidebar'')" and n': "\<not> is_function (JNum 1)"
    by (simp_all add: is_function_def)
  have hooked: "trace (trait_Serialize_js idle hooked_page) = [Invoke 0 implementors] \<and>
      win (trait_Serialize_js idle hooked_page) = hooked_page"
    using C6_at_most_one_effect
      [where w = hooked_page and f = 0 and fs = idle and g = 0 and v = JNull]
    by (simp add: page_reads idle_def)
  have blank: "trace (trait_Serialize_js idle blank_page) =
        [Assign ''pending_implementors'' implementors] \<and>
      win (trait_Serialize_js idle blank_page) \<noteq> blank_page \<and>
      raised (sidebar_items_js idle blank_page) = Some ReferenceError \<and>
      win (sidebar_items_js idle blank_page) = blank_page"
    using p p' C6_at_most_one_effect
      [where w = blank_page and f = 0 and fs = idle and g = 0 and v = JNull]
    by (auto simp: page_reads)
  have numbered: "trace (trait_Serialize_js idle numbered_page) = [] \<and>
      raised (trait_Serialize_js idle numbered_page) = Some TypeError"
    using n' C6_at_most_one_effect
      [where w = numbered_page and f = 0 and fs = idle and g = 0 and v = JNull]
    by (simp add: page_reads)
  have sidebar: "trace (sidebar_items_js idle sidebar_page) = [Invoke 1 sidebar_items] \<and>
      win (sidebar_items_js idle sidebar_page) = sidebar_page"
    using q C6_at_most_one_effect
      [where w = sidebar_page and f = 0 and fs = idle and g = 1 and v = JNull]
    by (simp add: idle_def)
  have stale: "raised (sidebar_items_js idle stale_sidebar_page) = Some TypeError \<and>
      win (sidebar_items_js idle stale_sidebar_page) = stale_sidebar_page"
    using r n C6_at_most_one_effect
      [where w = stale_sidebar_page and f = 0 and fs = idle and g = 0
        and v = "JStr ''sidebar''"]
    by simp
  show ?thesis
    using p p' q r n n' hooked blank numbered sidebar stale
    by (simp add: page_reads)
qed

end
